theory Spec2Isabelle
  imports Complex_Main "HOL-Library.Word"
begin

section \<open>Strings\<close>

text \<open>
  A JavaScript string is a sequence of UTF-16 code units. \<open>js\<close> turns an ASCII literal
  into such a string. \<open>trim\<close> is \<open>String.prototype.trim\<close>: it strips the WhiteSpace and
  LineTerminator code points of ECMAScript from both ends.
\<close>

type_synonym jsstring = "16 word list"

definition js :: "string \<Rightarrow> jsstring" where
  "js s = map of_char s"

definition isWhiteSpace :: "16 word \<Rightarrow> bool" where
  "isWhiteSpace c =
     (c \<in> {0x9, 0xA, 0xB, 0xC, 0xD, 0x20, 0xA0, 0x1680, 0x2028, 0x2029, 0x202F, 0x205F,
            0x3000, 0xFEFF}
      \<or> (0x2000 \<le> c \<and> c \<le> 0x200A))"

definition trim :: "jsstring \<Rightarrow> jsstring" where
  "trim s = rev (dropWhile isWhiteSpace (rev (dropWhile isWhiteSpace s)))"

section \<open>Data model of \<open>App.tsx\<close>\<close>

text \<open>
  Modelled from the spec: the declarations of \<open>SessionStatus\<close> and \<open>TranscriptionEntry\<close>,
  which \<open>App.tsx\<close> imports from \<open>./types\<close>. The status is one of Idle, Connecting,
  Connected and Error (the four members \<open>App.tsx\<close> uses), and an entry has a role and a
  text; the role is the student's (the literal \<open>'user'\<close> of \<open>App.tsx\<close>) or the mentor's
  (\<open>'model'\<close>).
\<close>

datatype SessionStatus = IDLE | CONNECTING | CONNECTED | ERROR

datatype role = RoleUser | RoleModel

record TranscriptionEntry =
  entry_role :: role
  entry_text :: jsstring

text \<open>A value produced by \<open>JSON.parse\<close>.\<close>

datatype json =
    JNull
  | JBool bool
  | JNum real
  | JStr jsstring
  | JArr "json list"
  | JObj "(jsstring \<times> json) list"

text \<open>
  \<open>finalGrade\<close>: the two fields hold whatever \<open>result.grade || 'N/A'\<close> and
  \<open>result.feedback || '...'\<close> evaluate to, which is a JSON value.
\<close>

record GradeReport =
  grade :: json
  feedback :: json

record canvas =
  canvas_width :: real
  canvas_height :: real
  has_2d_context :: bool

text \<open>
  Modelled from the spec: the type of a function call, which the SDK declares. A call
  carries an identifier, a capability name and an argument payload. The payload is an
  object with numeric members, as the declaration of \<open>draw_square\<close> (lines 20-41: three
  required NUMBER parameters) describes it, or it is missing (\<open>None\<close>: \<open>fc.args\<close> is
  undefined or null). The response is the object literal of lines 199-209.
\<close>

record FunctionCall =
  fc_id :: jsstring
  fc_name :: jsstring
  fc_args :: "(jsstring \<times> real) list option"

record FunctionResponse =
  fr_id :: jsstring
  fr_name :: jsstring
  fr_result :: jsstring

text \<open>
  The component's state: the React state variables, the refs, and the part of the
  platform the handlers act on. Audio contexts, buffer source nodes, interval timers and
  sessions are objects; each is named by a number drawn from \<open>nextObject\<close>. Times
  (\<open>AudioContext.currentTime\<close>, \<open>AudioBuffer.duration\<close>, the cursor \<open>nextStartTimeRef\<close>) are
  real numbers: the rounding of IEEE doubles is not modelled.
\<close>

record app_state =
  status :: SessionStatus
  transcriptions :: "TranscriptionEntry list"
  error :: "jsstring option"
  rubric :: jsstring
  finalGrade :: "GradeReport option"
  isGrading :: bool
  activeUserText :: jsstring
  activeModelText :: jsstring
  currentInputRef :: jsstring
  currentOutputRef :: jsstring
  audioContextInRef :: "nat option"
  audioContextOutRef :: "nat option"
  nextStartTimeRef :: real
  sourcesRef :: "nat list"
  canvasRef :: "canvas option"
  sessionRef :: "nat option"
  intervalRef :: "nat option"
  activeTimers :: "nat set"
  closedContexts :: "nat set"
  stoppedSources :: "nat set"
  startedSources :: "(nat \<times> real \<times> real) list"
  openedSessions :: "(nat \<times> jsstring) list"
  sentToolResponses :: "FunctionResponse list list"
  strokes :: "(real \<times> real \<times> real \<times> real) list"
  nextObject :: nat

text \<open>
  The fields from \<open>activeTimers\<close> on are the platform: the interval timers that are
  running, the audio contexts on which \<open>close()\<close> was called, the source nodes on which
  \<open>stop()\<close> was called, the calls \<open>source.start(when)\<close> with the node, the time and the
  buffer's duration, the sessions \<open>ai.live.connect\<close> has opened with their system
  instruction, the batches passed to \<open>sendToolResponse\<close>, and the rectangles passed to
  \<open>strokeRect\<close>.
\<close>

section \<open>Constants\<close>

definition BASE_SYSTEM_INSTRUCTION :: jsstring where
  "BASE_SYSTEM_INSTRUCTION = js (
     ''You are an expert, patient, and friendly math tutor.\<newline>'' @
     ''The user will share their screen (a handwriting canvas) and talk to you while solving math problems.\<newline>'' @
     ''Your goal is to guide the user through the solution using the Socratic method.\<newline>'' @
     ''\<newline>'' @
     ''IMPORTANT RULES:\<newline>'' @
     ''1. NEVER give the final answer directly.\<newline>'' @
     ''2. Ask leading questions to help the user realize their own mistakes or find the next step.\<newline>'' @
     ''3. If the user is stuck, provide a hint or explain a concept related to the problem.\<newline>'' @
     ''4. Encourage the user and acknowledge their progress.\<newline>'' @
     ''5. Keep your spoken responses concise so the user can focus on writing.\<newline>'' @
     ''6. Observe the handwriting canvas closely to understand what the user is writing in real-time.'')"

definition GREET_INSTRUCTION :: jsstring where
  "GREET_INSTRUCTION = js (
     ''INITIALIZATION: The teacher has provided a specific rubric/problem below. '' @
     ''You MUST start the conversation immediately. '' @
     ''Greet the student and explicitly ask them to solve the problem described in the rubric.'')"

definition WAIT_INSTRUCTION :: jsstring where
  "WAIT_INSTRUCTION = js (
     ''INITIALIZATION: No specific rubric is provided. You MUST NOT speak first. '' @
     ''Wait for the student to speak, greet you, or start drawing before you say anything.'')"

definition RUBRIC_HEADER :: jsstring where
  "RUBRIC_HEADER = js ''SPECIFIC RUBRIC/INSTRUCTIONS FROM TEACHER:\<newline>''"

definition INTERRUPTED_MARKER :: jsstring where
  "INTERRUPTED_MARKER = js '' [Interrupted]''"

definition GRADE_PLACEHOLDER :: jsstring where
  "GRADE_PLACEHOLDER = js ''N/A''"

definition FEEDBACK_PLACEHOLDER :: jsstring where
  "FEEDBACK_PLACEHOLDER = js ''Could not generate feedback.''"

section \<open>Teardown\<close>

text \<open>
  \<open>cleanup\<close> (lines 93-105). A timer handle of \<open>setInterval\<close> is a positive integer, so
  the test \<open>if (intervalRef.current)\<close> is the test for null. The refs to the timer and to
  the audio contexts keep their values; the cursor \<open>nextStartTimeRef\<close> and the history
  are not touched.
\<close>

definition cleanup :: "app_state \<Rightarrow> app_state" where
  "cleanup st = st
     \<lparr> activeTimers :=
         (case intervalRef st of None \<Rightarrow> activeTimers st | Some t \<Rightarrow> activeTimers st - {t}),
       closedContexts :=
         closedContexts st \<union> set_option (audioContextInRef st)
           \<union> set_option (audioContextOutRef st),
       stoppedSources := stoppedSources st \<union> set (sourcesRef st),
       sourcesRef := [],
       sessionRef := None,
       status := IDLE,
       activeUserText := [],
       activeModelText := [],
       currentInputRef := [],
       currentOutputRef := [] \<rparr>"

section \<open>Session start\<close>

text \<open>\<open>rubric && rubric.trim().length > 0\<close> (line 152).\<close>

definition hasRubric :: "jsstring \<Rightarrow> bool" where
  "hasRubric r = (r \<noteq> [] \<and> length (trim r) > 0)"

definition behaviorInstruction :: "jsstring \<Rightarrow> jsstring" where
  "behaviorInstruction r = (if hasRubric r then GREET_INSTRUCTION else WAIT_INSTRUCTION)"

definition finalInstruction :: "jsstring \<Rightarrow> jsstring" where
  "finalInstruction r =
     BASE_SYSTEM_INSTRUCTION @ js ''\<newline>\<newline>'' @ behaviorInstruction r @ js ''\<newline>\<newline>'' @
     (if hasRubric r then RUBRIC_HEADER @ r else [])"

text \<open>
  What the awaited operations of \<open>startTutoring\<close> do: \<open>getUserMedia\<close> rejects,
  \<open>ai.live.connect\<close> rejects, or both resolve. A rejection carries the error's \<open>message\<close>
  (\<open>None\<close> when the error has none). The constructors (\<open>GoogleGenAI\<close>, \<open>AudioContext\<close>) are
  taken to return. The run of \<open>startTutoring\<close> is taken without other handlers in between
  its awaits.
\<close>

datatype start_outcome =
    GetUserMediaRejects "jsstring option"
  | ConnectRejects "jsstring option"
  | ConnectResolves

text \<open>\<open>err.message || fallback\<close>: an absent or empty message is falsy.\<close>

definition message_or :: "jsstring option \<Rightarrow> jsstring \<Rightarrow> jsstring" where
  "message_or m fallback = (case m of None \<Rightarrow> fallback | Some s \<Rightarrow> if s = [] then fallback else s)"

text \<open>Lines 138-141: the synchronous start of \<open>startTutoring\<close>.\<close>

definition start_reset :: "app_state \<Rightarrow> app_state" where
  "start_reset st = st \<lparr> status := CONNECTING, error := None, finalGrade := None, transcriptions := [] \<rparr>"

text \<open>Lines 145-148: the two audio contexts.\<close>

definition open_contexts :: "app_state \<Rightarrow> app_state" where
  "open_contexts st =
     (let c = nextObject st in
      st \<lparr> audioContextInRef := Some c, audioContextOutRef := Some (c + 1), nextObject := c + 2 \<rparr>)"

text \<open>Lines 296-300: the catch block.\<close>

definition start_catch :: "jsstring option \<Rightarrow> app_state \<Rightarrow> app_state" where
  "start_catch m st =
     cleanup (st \<lparr> error := Some (message_or m (js ''Failed to initialize session.'')), status := ERROR \<rparr>)"

text \<open>Lines 163-191: \<open>onopen\<close> sets the status and starts the frame timer.\<close>

definition onopen :: "app_state \<Rightarrow> app_state" where
  "onopen st =
     (let t = nextObject st in
      st \<lparr> status := CONNECTED, intervalRef := Some t, activeTimers := insert t (activeTimers st),
           nextObject := t + 1 \<rparr>)"

definition connect :: "app_state \<Rightarrow> app_state" where
  "connect st =
     (let sid = nextObject st;
          st1 = onopen (st \<lparr> openedSessions := openedSessions st @ [(sid, finalInstruction (rubric st))],
                             nextObject := sid + 1 \<rparr>)
      in st1 \<lparr> sessionRef := Some sid \<rparr>)"

definition startTutoring :: "start_outcome \<Rightarrow> app_state \<Rightarrow> app_state" where
  "startTutoring outcome st =
     (let st1 = open_contexts (start_reset st) in
      case outcome of
        GetUserMediaRejects m \<Rightarrow> start_catch m st1
      | ConnectRejects m \<Rightarrow> start_catch m st1
      | ConnectResolves \<Rightarrow> connect st1)"

text \<open>
  The header's buttons (lines 391-406): at status \<open>CONNECTED\<close> the Disconnect button is
  rendered in place of the Start button, and the Start button is disabled at status
  \<open>CONNECTING\<close>.
\<close>

definition click_start :: "start_outcome \<Rightarrow> app_state \<Rightarrow> app_state" where
  "click_start outcome st =
     (if status st = CONNECTED then st
      else if status st = CONNECTING then st
      else startTutoring outcome st)"


text \<open>\<open>onerror\<close> and \<open>onclose\<close> (lines 276-281).\<close>

definition onerror :: "app_state \<Rightarrow> app_state" where
  "onerror st = cleanup (st \<lparr> error := Some (js ''An error occurred during the session.'') \<rparr>)"

definition onclose :: "app_state \<Rightarrow> app_state" where
  "onclose st = cleanup st"

section \<open>Inbound messages\<close>

text \<open>
  An inbound message, by the fields \<open>onmessage\<close> reads: \<open>toolCall.functionCalls\<close>, the
  base64 audio of \<open>serverContent.modelTurn.parts[0].inlineData.data\<close>, and of
  \<open>serverContent\<close> the flag \<open>interrupted\<close>, the two transcriptions and the flag
  \<open>turnComplete\<close>. A transcription that is present holds its \<open>text\<close>, or \<open>None\<close> when the
  object has no \<open>text\<close>.
\<close>

record message =
  toolCall :: "FunctionCall list option"
  audioData :: "jsstring option"
  interrupted :: bool
  inputTranscription :: "jsstring option option"
  outputTranscription :: "jsstring option option"
  turnComplete :: bool

subsection \<open>Tool calls\<close>

text \<open>
  \<open>drawHighlightSquare\<close> (lines 111-134): nothing without a canvas or a 2d context,
  else one \<open>strokeRect\<close>.
\<close>

definition drawHighlightSquare :: "real \<Rightarrow> real \<Rightarrow> real \<Rightarrow> app_state \<Rightarrow> app_state" where
  "drawHighlightSquare x y sz st =
     (case canvasRef st of
        None \<Rightarrow> st
      | Some c \<Rightarrow>
          if \<not> has_2d_context c then st
          else
            (let px = (x / 1000) * canvas_width c;
                 py = (y / 1000) * canvas_height c;
                 s = (sz / 1000) * canvas_width c
             in st \<lparr> strokes := strokes st @ [(px - s / 2, py - s / 2, s, s)] \<rparr>))"

text \<open>
  The body of the \<open>map\<close> callback (lines 196-209); \<open>None\<close> is a thrown exception. For
  \<open>draw_square\<close> line 197 destructures \<open>fc.args\<close>, which throws a TypeError when the
  arguments are missing. A member missing from the arguments is \<open>undefined\<close>: the
  coordinates are then NaN, and \<open>strokeRect\<close> draws nothing for a rectangle that is not
  finite.
\<close>

definition respond :: "FunctionCall \<Rightarrow> app_state \<Rightarrow> FunctionResponse option \<times> app_state" where
  "respond fc st =
     (if fc_name fc = js ''draw_square'' then
        (case fc_args fc of
           None \<Rightarrow> (None, st)
         | Some args \<Rightarrow>
             (Some \<lparr> fr_id = fc_id fc, fr_name = fc_name fc, fr_result = js ''ok'' \<rparr>,
              (case (map_of args (js ''x''), map_of args (js ''y''), map_of args (js ''size'')) of
                 (Some x, Some y, Some sz) \<Rightarrow> drawHighlightSquare x y sz st
               | _ \<Rightarrow> st)))
      else
        (Some \<lparr> fr_id = fc_id fc, fr_name = fc_name fc, fr_result = js ''error: tool not found'' \<rparr>,
         st))"

text \<open>
  \<open>functionCalls.map(...)\<close>: the calls are answered in order, each drawing in turn; an
  exception of the callback ends the \<open>map\<close> with the state as it is then.
\<close>

fun functionResponses ::
    "FunctionCall list \<Rightarrow> app_state \<Rightarrow> FunctionResponse list option \<times> app_state" where
  "functionResponses [] st = (Some [], st)"
| "functionResponses (fc # fcs) st =
     (case respond fc st of
        (None, st1) \<Rightarrow> (None, st1)
      | (Some r, st1) \<Rightarrow>
          (case functionResponses fcs st1 of
             (None, st2) \<Rightarrow> (None, st2)
           | (Some rs, st2) \<Rightarrow> (Some (r # rs), st2)))"

text \<open>
  Lines 194-215: the batch is sent when it is not empty. The first component of the
  result says whether the branch threw.
\<close>

definition on_toolCall :: "FunctionCall list \<Rightarrow> app_state \<Rightarrow> bool \<times> app_state" where
  "on_toolCall fcs st =
     (case functionResponses fcs st of
        (None, st1) \<Rightarrow> (True, st1)
      | (Some rs, st1) \<Rightarrow>
          (False,
           if length rs > 0 then st1 \<lparr> sentToolResponses := sentToolResponses st1 @ [rs] \<rparr>
           else st1))"

subsection \<open>Audio output\<close>

text \<open>\<open>Set.prototype.add\<close> and \<open>Set.prototype.delete\<close> on the set of source nodes.\<close>

definition set_add :: "nat \<Rightarrow> nat list \<Rightarrow> nat list" where
  "set_add a xs = (if a \<in> set xs then xs else xs @ [a])"

definition set_delete :: "nat \<Rightarrow> nat list \<Rightarrow> nat list" where
  "set_delete a xs = removeAll a xs"

text \<open>
  Lines 218-232. \<open>now\<close> is \<open>outCtx.currentTime\<close>. The decoder of \<open>services/audioUtils\<close> is
  a parameter: \<open>duration_of\<close> gives the duration of the buffer that
  \<open>decodeAudioData(decode(base64Audio), outCtx, 24000, 1)\<close> returns; by the spec the codec
  has no error path. The branch is taken without other handlers running at its await.
  An empty string is falsy.
\<close>

definition on_audio :: "real \<Rightarrow> (jsstring \<Rightarrow> real) \<Rightarrow> jsstring \<Rightarrow> app_state \<Rightarrow> app_state" where
  "on_audio now duration_of base64Audio st =
     (if base64Audio = [] then st
      else
        case audioContextOutRef st of
          None \<Rightarrow> st
        | Some outCtx \<Rightarrow>
            (let start = max (nextStartTimeRef st) now;
                 d = duration_of base64Audio;
                 source = nextObject st
             in st \<lparr> nextStartTimeRef := start + d,
                     startedSources := startedSources st @ [(source, start, d)],
                     sourcesRef := set_add source (sourcesRef st),
                     nextObject := source + 1 \<rparr>))"

text \<open>The listener for \<open>ended\<close> of a source node (line 227).\<close>

definition on_ended :: "nat \<Rightarrow> app_state \<Rightarrow> app_state" where
  "on_ended source st = st \<lparr> sourcesRef := set_delete source (sourcesRef st) \<rparr>"

subsection \<open>Interruption, transcription, turn completion\<close>

text \<open>Lines 235-241.\<close>

definition on_interrupted :: "app_state \<Rightarrow> app_state" where
  "on_interrupted st =
     (let out = currentOutputRef st @ INTERRUPTED_MARKER in
      st \<lparr> stoppedSources := stoppedSources st \<union> set (sourcesRef st),
           sourcesRef := [],
           nextStartTimeRef := 0,
           currentOutputRef := out,
           activeModelText := out \<rparr>)"

text \<open>\<open>buffer += text\<close>: an \<open>undefined\<close> text is appended as the string \<open>undefined\<close>.\<close>

definition plus_text :: "jsstring \<Rightarrow> jsstring option \<Rightarrow> jsstring" where
  "plus_text buffer t = buffer @ (case t of None \<Rightarrow> js ''undefined'' | Some s \<Rightarrow> s)"

text \<open>Lines 244-253.\<close>

definition on_inputTranscription :: "jsstring option \<Rightarrow> app_state \<Rightarrow> app_state" where
  "on_inputTranscription t st =
     (let inp = plus_text (currentInputRef st) t in
      st \<lparr> currentInputRef := inp, activeUserText := inp \<rparr>)"

definition on_outputTranscription :: "jsstring option \<Rightarrow> app_state \<Rightarrow> app_state" where
  "on_outputTranscription t st =
     (let out = plus_text (currentOutputRef st) t in
      st \<lparr> currentOutputRef := out, activeModelText := out \<rparr>)"

text \<open>Lines 257-263: the entries of the turn.\<close>

definition historyToAppend :: "app_state \<Rightarrow> TranscriptionEntry list" where
  "historyToAppend st =
     (if trim (currentInputRef st) \<noteq> []
      then [\<lparr> entry_role = RoleUser, entry_text = trim (currentInputRef st) \<rparr>] else []) @
     (if trim (currentOutputRef st) \<noteq> []
      then [\<lparr> entry_role = RoleModel, entry_text = trim (currentOutputRef st) \<rparr>] else [])"

text \<open>Lines 256-274.\<close>

definition on_turnComplete :: "app_state \<Rightarrow> app_state" where
  "on_turnComplete st =
     (let h = historyToAppend st;
          st1 = (if length h > 0 then st \<lparr> transcriptions := transcriptions st @ h \<rparr> else st)
      in st1 \<lparr> currentInputRef := [], currentOutputRef := [],
               activeUserText := [], activeModelText := [] \<rparr>)"

subsection \<open>The handler\<close>

text \<open>
  \<open>onmessage\<close> (lines 192-275): the branches in the order of the source. The handler is
  an async function: an exception of the tool-call branch rejects its promise, and the
  branches after it are not run.
\<close>

definition onmessage :: "real \<Rightarrow> (jsstring \<Rightarrow> real) \<Rightarrow> message \<Rightarrow> app_state \<Rightarrow> app_state" where
  "onmessage now duration_of m st =
     (let (threw, st1) = (case toolCall m of None \<Rightarrow> (False, st) | Some fcs \<Rightarrow> on_toolCall fcs st)
      in if threw then st1
         else
           (let st2 = (case audioData m of None \<Rightarrow> st1 | Some a \<Rightarrow> on_audio now duration_of a st1);
                st3 = (if interrupted m then on_interrupted st2 else st2);
                st4 = (case inputTranscription m of None \<Rightarrow> st3 | Some t \<Rightarrow> on_inputTranscription t st3);
                st5 = (case outputTranscription m of None \<Rightarrow> st4 | Some t \<Rightarrow> on_outputTranscription t st4)
            in if turnComplete m then on_turnComplete st5 else st5))"

section \<open>Grading\<close>

text \<open>
  What the awaited \<open>generateContent\<close> does: it rejects, or it resolves with a response
  whose \<open>text\<close> is a string or undefined. The constructor \<open>GoogleGenAI\<close> (line 307) and
  \<open>toDataURL\<close> (line 310) are taken to return.
\<close>

datatype grade_outcome = RequestFails | Responds "jsstring option"

text \<open>JavaScript truthiness of a JSON value.\<close>

fun truthy :: "json \<Rightarrow> bool" where
  "truthy JNull = False"
| "truthy (JBool b) = b"
| "truthy (JNum n) = (n \<noteq> 0)"
| "truthy (JStr s) = (s \<noteq> [])"
| "truthy (JArr _) = True"
| "truthy (JObj _) = True"

text \<open>
  \<open>result.key\<close>: reading a property of \<open>null\<close> throws a TypeError (\<open>None\<close>). Of an
  object it is the member (the last one of that name, as \<open>JSON.parse\<close> keeps it) or
  undefined; a boolean, a number, a string and an array have no property \<open>grade\<close> or
  \<open>feedback\<close>. \<open>Some None\<close> is undefined.
\<close>

fun property :: "json \<Rightarrow> jsstring \<Rightarrow> json option option" where
  "property JNull key = None"
| "property (JObj members) key = Some (map_of (rev members) key)"
| "property _ key = Some None"

text \<open>\<open>value || placeholder\<close>.\<close>

definition or_placeholder :: "json option \<Rightarrow> jsstring \<Rightarrow> json" where
  "or_placeholder v p = (case v of None \<Rightarrow> JStr p | Some j \<Rightarrow> if truthy j then j else JStr p)"

text \<open>The catch block (lines 343-345) and the finally block (lines 346-348).\<close>

definition grading_catch :: "app_state \<Rightarrow> app_state" where
  "grading_catch st = st \<lparr> error := Some (js ''Grading process failed. Please try again.'') \<rparr>"

definition grading_finally :: "app_state \<Rightarrow> app_state" where
  "grading_finally st = st \<lparr> isGrading := False \<rparr>"

text \<open>
  The try block from the response on (lines 337-342). \<open>parse\<close> is \<open>JSON.parse\<close>, \<open>None\<close>
  when it throws a SyntaxError.
\<close>

definition grading_try :: "(jsstring \<Rightarrow> json option) \<Rightarrow> grade_outcome \<Rightarrow> app_state \<Rightarrow> app_state" where
  "grading_try parse outcome st =
     (case outcome of
        RequestFails \<Rightarrow> grading_catch st
      | Responds t \<Rightarrow>
          (case parse (message_or t (js ''{}'')) of
             None \<Rightarrow> grading_catch st
           | Some result \<Rightarrow>
               (case property result (js ''grade'') of
                  None \<Rightarrow> grading_catch st
                | Some g \<Rightarrow>
                    (case property result (js ''feedback'') of
                       None \<Rightarrow> grading_catch st
                     | Some f \<Rightarrow>
                         cleanup (st \<lparr> finalGrade :=
                           Some \<lparr> grade = or_placeholder g GRADE_PLACEHOLDER,
                                  feedback = or_placeholder f FEEDBACK_PLACEHOLDER \<rparr> \<rparr>)))))"

text \<open>\<open>handleGradeAssignment\<close> (lines 303-349).\<close>

definition handleGradeAssignment ::
    "(jsstring \<Rightarrow> json option) \<Rightarrow> grade_outcome \<Rightarrow> app_state \<Rightarrow> app_state" where
  "handleGradeAssignment parse outcome st =
     (if canvasRef st = None then st
      else grading_finally (grading_try parse outcome (st \<lparr> isGrading := True \<rparr>)))"

text \<open>The Finish and Grade button (lines 377-389): rendered at status \<open>CONNECTED\<close>, disabled while grading.\<close>

definition click_grade :: "(jsstring \<Rightarrow> json option) \<Rightarrow> grade_outcome \<Rightarrow> app_state \<Rightarrow> app_state" where
  "click_grade parse outcome st =
     (if status st = CONNECTED \<and> \<not> isGrading st then handleGradeAssignment parse outcome st else st)"

section \<open>The initial state and event sequences\<close>

text \<open>The initial value of the state variable \<open>rubric\<close> (lines 47-65).\<close>

definition DEFAULT_RUBRIC :: jsstring where
  "DEFAULT_RUBRIC = js (
     ''## Rubric: Solving a Simple Linear Equation  \<newline>'' @
     ''**Equation:** 2x = 10  \<newline>'' @
     ''**Total:** 3 points\<newline>'' @
     ''\<newline>'' @
     ''### 1. Writes the equation correctly (1 point)\<newline>'' @
     ''- **1 point:** Writes the equation as given:  \<newline>'' @
     ''  2x = 10  \<newline>'' @
     ''- **0 points:** Writes the equation incorrectly.\<newline>'' @
     ''\<newline>'' @
     ''### 2. Solves the equation using the correct operation (1 point)\<newline>'' @
     ''- **1 point:** Correctly divides both sides by 2 and shows the step or clearly implies it.  \<newline>'' @
     ''  x = 5  \<newline>'' @
     ''- **0.5 points (optional):** Correct method but arithmetic error.  \<newline>'' @
     ''- **0 points:** Uses an incorrect operation or does not attempt to solve.\<newline>'' @
     ''\<newline>'' @
     ''### 3. Final answer and clarity (1 point)\<newline>'' @
     ''- **1 point:** Final answer is correct and clearly stated, and work is easy to follow.  \<newline>'' @
     ''- **0.5 points:** Final answer is correct but work is unclear or incomplete.  \<newline>'' @
     ''- **0 points:** Final answer is missing or incorrect.'')"

text \<open>
  The state when the component mounts: the initial values of \<open>useState\<close> and \<open>useRef\<close>
  (lines 44-84), no object created yet.
\<close>

definition initial_state :: app_state where
  "initial_state =
     \<lparr> status = IDLE, transcriptions = [], error = None, rubric = DEFAULT_RUBRIC,
       finalGrade = None, isGrading = False, activeUserText = [], activeModelText = [],
       currentInputRef = [], currentOutputRef = [], audioContextInRef = None,
       audioContextOutRef = None, nextStartTimeRef = 0, sourcesRef = [], canvasRef = None,
       sessionRef = None, intervalRef = None, activeTimers = {}, closedContexts = {},
       stoppedSources = {}, startedSources = [], openedSessions = [], sentToolResponses = [],
       strokes = [], nextObject = 0 \<rparr>"

text \<open>\<open>handleCanvasRef\<close> (lines 107-109) and the rubric editor's \<open>setRubric\<close>.\<close>

definition handleCanvasRef :: "canvas option \<Rightarrow> app_state \<Rightarrow> app_state" where
  "handleCanvasRef c st = st \<lparr> canvasRef := c \<rparr>"

definition setRubric :: "jsstring \<Rightarrow> app_state \<Rightarrow> app_state" where
  "setRubric r st = st \<lparr> rubric := r \<rparr>"

text \<open>A message with no content; an event is this message with one field set.\<close>

definition no_content :: message where
  "no_content =
     \<lparr> toolCall = None, audioData = None, interrupted = False, inputTranscription = None,
       outputTranscription = None, turnComplete = False \<rparr>"

text \<open>
  Inbound messages are handled in arrival order; each comes with the reading of the
  output clock at its handling.
\<close>

fun onmessages :: "(jsstring \<Rightarrow> real) \<Rightarrow> (real \<times> message) list \<Rightarrow> app_state \<Rightarrow> app_state" where
  "onmessages duration_of [] st = st"
| "onmessages duration_of ((now, m) # ms) st = onmessages duration_of ms (onmessage now duration_of m st)"

section \<open>Example inputs and the spec's notions\<close>

text \<open>A decoder whose buffers all last \<open>d\<close> seconds, and the message of one audio chunk.\<close>

definition fixed_duration :: "real \<Rightarrow> jsstring \<Rightarrow> real" where
  "fixed_duration d a = d"

definition audio_event :: "jsstring \<Rightarrow> message" where
  "audio_event a = no_content \<lparr> audioData := Some a \<rparr>"

definition example_canvas :: canvas where
  "example_canvas = \<lparr> canvas_width = 800, canvas_height = 600, has_2d_context = True \<rparr>"

text \<open>
  The spec's playback schedule for chunks \<open>(now, data)\<close> handled in order from a cursor:
  each segment starts at the later of the cursor and the clock, and the cursor moves to
  its end. \<open>spec_cursor\<close> is the cursor after the last one, \<open>clock_behind\<close> says that at
  each chunk the clock has not passed the cursor, \<open>total_duration\<close> is the sum of the
  durations, and \<open>audio_events\<close> are the messages that carry the chunks.
\<close>

fun spec_schedule ::
    "(jsstring \<Rightarrow> real) \<Rightarrow> real \<Rightarrow> nat \<Rightarrow> (real \<times> jsstring) list \<Rightarrow> (nat \<times> real \<times> real) list" where
  "spec_schedule duration_of cursor n [] = []"
| "spec_schedule duration_of cursor n ((now, a) # es) =
     (n, max cursor now, duration_of a)
       # spec_schedule duration_of (max cursor now + duration_of a) (Suc n) es"

fun clock_behind :: "(jsstring \<Rightarrow> real) \<Rightarrow> real \<Rightarrow> (real \<times> jsstring) list \<Rightarrow> bool" where
  "clock_behind duration_of cursor [] = True"
| "clock_behind duration_of cursor ((now, a) # es) =
     (now \<le> cursor \<and> clock_behind duration_of (cursor + duration_of a) es)"

fun spec_cursor :: "(jsstring \<Rightarrow> real) \<Rightarrow> real \<Rightarrow> (real \<times> jsstring) list \<Rightarrow> real" where
  "spec_cursor duration_of cursor [] = cursor"
| "spec_cursor duration_of cursor ((now, a) # es) =
     spec_cursor duration_of (max cursor now + duration_of a) es"

definition audio_events :: "(real \<times> jsstring) list \<Rightarrow> (real \<times> message) list" where
  "audio_events es = map (\<lambda>(now, a). (now, audio_event a)) es"

definition total_duration :: "(jsstring \<Rightarrow> real) \<Rightarrow> (real \<times> jsstring) list \<Rightarrow> real" where
  "total_duration duration_of es = sum_list (map (\<lambda>(now, a). duration_of a) es)"

text \<open>\<open>JSON.parse\<close> on the two texts of the examples; other texts are not in the table.\<close>

definition parse_example :: "jsstring \<Rightarrow> json option" where
  "parse_example s =
     (if s = js ''null'' then Some JNull else if s = js ''{}'' then Some (JObj []) else None)"

text \<open>The spec's "the response body has the field": the body is an object with that member.\<close>

fun has_member :: "json \<Rightarrow> jsstring \<Rightarrow> bool" where
  "has_member (JObj members) key = (key \<in> fst ` set members)"
| "has_member _ key = False"

text \<open>The calls on which the callback of line 196 throws.\<close>

definition throws :: "FunctionCall \<Rightarrow> bool" where
  "throws fc = (fc_name fc = js ''draw_square'' \<and> fc_args fc = None)"

text \<open>The tool-call branch of \<open>onmessage\<close> returns: the message has no tool call that throws.\<close>

definition toolCall_returns :: "message \<Rightarrow> bool" where
  "toolCall_returns m = (case toolCall m of None \<Rightarrow> True | Some fcs \<Rightarrow> \<not> list_ex throws fcs)"

section \<open>Auxiliary facts\<close>

lemma trim_Nil: "trim [] = []"
  by (simp add: trim_def)

lemma hasRubric_iff: "hasRubric r = (trim r \<noteq> [])"
  by (auto simp: hasRubric_def trim_Nil)

lemma respond_frame: "\<exists>ss. snd (respond fc st) = st \<lparr> strokes := ss \<rparr>"
proof (cases "snd (respond fc st) = st")
  case True
  then have "snd (respond fc st) = st \<lparr> strokes := strokes st \<rparr>"
    by simp
  then show ?thesis
    by blast
next
  case False
  then have "snd (respond fc st) = st \<lparr> strokes := strokes (snd (respond fc st)) \<rparr>"
    by (simp add: respond_def drawHighlightSquare_def Let_def split: option.splits if_splits)
  then show ?thesis
    by blast
qed

lemma respond_fst:
  "fst (respond fc st) =
     (if throws fc then None
      else Some \<lparr> fr_id = fc_id fc, fr_name = fc_name fc,
                  fr_result = (if fc_name fc = js ''draw_square'' then js ''ok''
                               else js ''error: tool not found'') \<rparr>)"
  by (simp add: respond_def throws_def split: option.split)

lemma functionResponses_frame:
  "\<exists>ss. snd (functionResponses fcs st) = st \<lparr> strokes := ss \<rparr>"
proof (induction fcs arbitrary: st)
  case Nil
  have "snd (functionResponses [] st) = st \<lparr> strokes := strokes st \<rparr>"
    by simp
  then show ?case
    by blast
next
  case (Cons fc fcs)
  obtain s1 where r: "snd (respond fc st) = st \<lparr> strokes := s1 \<rparr>"
    using respond_frame by blast
  obtain s2 where f: "snd (functionResponses fcs (st \<lparr> strokes := s1 \<rparr>)) = st \<lparr> strokes := s1, strokes := s2 \<rparr>"
    using Cons.IH by blast
  have "snd (functionResponses (fc # fcs) st) = st \<lparr> strokes := s1 \<rparr>
        \<or> snd (functionResponses (fc # fcs) st) = st \<lparr> strokes := s2 \<rparr>"
  proof (cases "respond fc st")
    case (Pair r1 st1)
    have st1: "st1 = st \<lparr> strokes := s1 \<rparr>"
      using r Pair by simp
    show ?thesis
    proof (cases r1)
      case None
      then show ?thesis by (simp add: Pair st1)
    next
      case (Some a)
      show ?thesis
      proof (cases "functionResponses fcs (st \<lparr> strokes := s1 \<rparr>)")
        case (Pair r2 st2)
        have "st2 = st \<lparr> strokes := s2 \<rparr>"
          using f Pair by simp
        then show ?thesis
          using Pair Some \<open>respond fc st = (r1, st1)\<close> st1
          by (cases r2) simp_all
      qed
    qed
  qed
  then show ?case
    by blast
qed

lemma functionResponses_fst:
  "fst (functionResponses fcs st) =
     (if list_ex throws fcs then None
      else Some (map (\<lambda>fc. \<lparr> fr_id = fc_id fc, fr_name = fc_name fc,
                  fr_result = (if fc_name fc = js ''draw_square'' then js ''ok''
                               else js ''error: tool not found'') \<rparr>) fcs))"
proof (induction fcs arbitrary: st)
  case Nil
  show ?case by simp
next
  case (Cons fc fcs)
  obtain r1 st1 where r: "respond fc st = (r1, st1)"
    by (cases "respond fc st")
  obtain r2 st2 where f: "functionResponses fcs st1 = (r2, st2)"
    by (cases "functionResponses fcs st1")
  have r1: "r1 = (if throws fc then None
      else Some \<lparr> fr_id = fc_id fc, fr_name = fc_name fc,
                  fr_result = (if fc_name fc = js ''draw_square'' then js ''ok''
                               else js ''error: tool not found'') \<rparr>)"
    using respond_fst [of fc st] r by simp
  have r2: "r2 = (if list_ex throws fcs then None
      else Some (map (\<lambda>fc. \<lparr> fr_id = fc_id fc, fr_name = fc_name fc,
                  fr_result = (if fc_name fc = js ''draw_square'' then js ''ok''
                               else js ''error: tool not found'') \<rparr>) fcs))"
    using Cons.IH [of st1] f by simp
  show ?case
    by (simp add: r f r1 r2)
qed

lemma on_toolCall_threw: "fst (on_toolCall fcs st) = list_ex throws fcs"
proof -
  obtain rs st1 where f: "functionResponses fcs st = (rs, st1)"
    by (cases "functionResponses fcs st")
  have "rs = None \<longleftrightarrow> list_ex throws fcs"
    using functionResponses_fst [of fcs st] f by (simp split: if_splits)
  then show ?thesis
    by (cases rs) (simp_all add: on_toolCall_def f)
qed

lemma on_toolCall_frame:
  "\<exists>ss rs. snd (on_toolCall fcs st) = st \<lparr> strokes := ss, sentToolResponses := rs \<rparr>"
proof -
  obtain ss where s: "snd (functionResponses fcs st) = st \<lparr> strokes := ss \<rparr>"
    using functionResponses_frame by blast
  obtain r st1 where f: "functionResponses fcs st = (r, st1)"
    by (cases "functionResponses fcs st")
  have st1: "st1 = st \<lparr> strokes := ss \<rparr>"
    using s f by simp
  have "snd (on_toolCall fcs st) = st \<lparr> strokes := ss, sentToolResponses := sentToolResponses st \<rparr>
      \<or> snd (on_toolCall fcs st) =
          st \<lparr> strokes := ss, sentToolResponses := sentToolResponses st @ [the r] \<rparr>"
    by (cases r) (simp_all add: on_toolCall_def f st1)
  then show ?thesis
    by blast
qed

lemma on_toolCall_sent:
  "sentToolResponses (snd (on_toolCall fcs st)) =
     sentToolResponses st @
       (if fcs = [] \<or> list_ex throws fcs then []
        else [map (\<lambda>fc. \<lparr> fr_id = fc_id fc, fr_name = fc_name fc,
                  fr_result = (if fc_name fc = js ''draw_square'' then js ''ok''
                               else js ''error: tool not found'') \<rparr>) fcs])"
proof -
  obtain ss where s: "snd (functionResponses fcs st) = st \<lparr> strokes := ss \<rparr>"
    using functionResponses_frame by blast
  obtain r st1 where f: "functionResponses fcs st = (r, st1)"
    by (cases "functionResponses fcs st")
  have st1: "st1 = st \<lparr> strokes := ss \<rparr>"
    using s f by simp
  have r: "r = (if list_ex throws fcs then None
      else Some (map (\<lambda>fc. \<lparr> fr_id = fc_id fc, fr_name = fc_name fc,
                  fr_result = (if fc_name fc = js ''draw_square'' then js ''ok''
                               else js ''error: tool not found'') \<rparr>) fcs))"
    using functionResponses_fst [of fcs st] f by simp
  show ?thesis
    by (simp add: on_toolCall_def f st1 r)
qed

lemma on_toolCall_playback:
  "sourcesRef (snd (on_toolCall fcs st)) = sourcesRef st"
  "stoppedSources (snd (on_toolCall fcs st)) = stoppedSources st"
  "nextStartTimeRef (snd (on_toolCall fcs st)) = nextStartTimeRef st"
proof -
  obtain ss rs where "snd (on_toolCall fcs st) = st \<lparr> strokes := ss, sentToolResponses := rs \<rparr>"
    using on_toolCall_frame by blast
  then show "sourcesRef (snd (on_toolCall fcs st)) = sourcesRef st"
    "stoppedSources (snd (on_toolCall fcs st)) = stoppedSources st"
    "nextStartTimeRef (snd (on_toolCall fcs st)) = nextStartTimeRef st"
    by simp_all
qed

lemma on_audio_playback:
  "set (sourcesRef st) \<subseteq> set (sourcesRef (on_audio now duration_of a st))"
  "stoppedSources (on_audio now duration_of a st) = stoppedSources st"
  by (auto simp: on_audio_def set_add_def Let_def split: option.split)

lemma after_interrupted:
  "sourcesRef (on_interrupted st) = []"
  "nextStartTimeRef (on_interrupted st) = 0"
  "stoppedSources (on_interrupted st) = stoppedSources st \<union> set (sourcesRef st)"
  by (simp_all add: on_interrupted_def Let_def)

lemma transcription_playback:
  "sourcesRef (on_inputTranscription t st) = sourcesRef st"
  "nextStartTimeRef (on_inputTranscription t st) = nextStartTimeRef st"
  "stoppedSources (on_inputTranscription t st) = stoppedSources st"
  "sourcesRef (on_outputTranscription t st) = sourcesRef st"
  "nextStartTimeRef (on_outputTranscription t st) = nextStartTimeRef st"
  "stoppedSources (on_outputTranscription t st) = stoppedSources st"
  "sourcesRef (on_turnComplete st) = sourcesRef st"
  "nextStartTimeRef (on_turnComplete st) = nextStartTimeRef st"
  "stoppedSources (on_turnComplete st) = stoppedSources st"
  by (simp_all add: on_inputTranscription_def on_outputTranscription_def on_turnComplete_def Let_def)

lemma onmessage_audio_event:
  "onmessage now duration_of (audio_event a) st = on_audio now duration_of a st"
  by (simp add: onmessage_def audio_event_def no_content_def Let_def)

lemma set_set_add: "set (set_add a xs) = insert a (set xs)"
  by (auto simp: set_add_def)

lemma on_audio_enqueues:
  assumes "audioContextOutRef st = Some c" and "a \<noteq> []"
  shows "on_audio now duration_of a st =
           st \<lparr> nextStartTimeRef := max (nextStartTimeRef st) now + duration_of a,
                startedSources := startedSources st @ [(nextObject st, max (nextStartTimeRef st) now, duration_of a)],
                sourcesRef := set_add (nextObject st) (sourcesRef st),
                nextObject := Suc (nextObject st) \<rparr>"
  using assms by (simp add: on_audio_def Let_def)

lemma enqueue_sequence:
  assumes "audioContextOutRef st = Some c" and "\<forall>(now, a) \<in> set es. a \<noteq> []"
  shows "nextStartTimeRef (onmessages duration_of (audio_events es) st) =
           spec_cursor duration_of (nextStartTimeRef st) es
         \<and> startedSources (onmessages duration_of (audio_events es) st) =
           startedSources st @ spec_schedule duration_of (nextStartTimeRef st) (nextObject st) es
         \<and> set (sourcesRef (onmessages duration_of (audio_events es) st)) =
           set (sourcesRef st) \<union> {nextObject st ..< nextObject st + length es}"
  using assms
proof (induction es arbitrary: st)
  case Nil
  show ?case by (simp add: audio_events_def)
next
  case (Cons e es)
  obtain now a where e: "e = (now, a)" by (cases e)
  define st1 where "st1 = on_audio now duration_of a st"
  have a: "a \<noteq> []" using Cons.prems(2) e by simp
  have st1: "st1 = st \<lparr> nextStartTimeRef := max (nextStartTimeRef st) now + duration_of a,
                startedSources := startedSources st @ [(nextObject st, max (nextStartTimeRef st) now, duration_of a)],
                sourcesRef := set_add (nextObject st) (sourcesRef st),
                nextObject := Suc (nextObject st) \<rparr>"
    unfolding st1_def using Cons.prems(1) a by (rule on_audio_enqueues)
  have ctx1: "audioContextOutRef st1 = Some c" using Cons.prems(1) by (simp add: st1)
  have rest: "\<forall>(now, a) \<in> set es. a \<noteq> []" using Cons.prems(2) by simp
  have run: "onmessages duration_of (audio_events ((now, a) # es)) st = onmessages duration_of (audio_events es) st1"
    by (simp add: audio_events_def onmessage_audio_event st1_def)
  have f1: "nextStartTimeRef st1 = max (nextStartTimeRef st) now + duration_of a"
    and f2: "startedSources st1 = startedSources st @ [(nextObject st, max (nextStartTimeRef st) now, duration_of a)]"
    and f3: "nextObject st1 = Suc (nextObject st)"
    and f4: "set (sourcesRef st1) = insert (nextObject st) (set (sourcesRef st))"
    by (simp_all add: st1 set_set_add)
  have ih: "nextStartTimeRef (onmessages duration_of (audio_events es) st1) =
           spec_cursor duration_of (nextStartTimeRef st1) es
         \<and> startedSources (onmessages duration_of (audio_events es) st1) =
           startedSources st1 @ spec_schedule duration_of (nextStartTimeRef st1) (nextObject st1) es
         \<and> set (sourcesRef (onmessages duration_of (audio_events es) st1)) =
           set (sourcesRef st1) \<union> {nextObject st1 ..< nextObject st1 + length es}"
    using ctx1 rest by (rule Cons.IH)
  have c1: "nextStartTimeRef (onmessages duration_of (audio_events ((now, a) # es)) st) =
           spec_cursor duration_of (nextStartTimeRef st) ((now, a) # es)"
    using ih by (simp add: run f1)
  have c2: "startedSources (onmessages duration_of (audio_events ((now, a) # es)) st) =
           startedSources st @ spec_schedule duration_of (nextStartTimeRef st) (nextObject st) ((now, a) # es)"
    using ih by (simp add: run f1 f2 f3)
  have ids: "insert (nextObject st) (set (sourcesRef st)) \<union> {Suc (nextObject st) ..< Suc (nextObject st) + length es}
      = set (sourcesRef st) \<union> {nextObject st ..< nextObject st + length ((now, a) # es)}"
    by auto
  have c3: "set (sourcesRef (onmessages duration_of (audio_events ((now, a) # es)) st)) =
           set (sourcesRef st) \<union> {nextObject st ..< nextObject st + length ((now, a) # es)}"
    using ih ids by (simp only: run f3 f4)
  show ?case unfolding e using c1 c2 c3 by blast
qed

lemma spec_cursor_lower:
  "cursor + total_duration duration_of es \<le> spec_cursor duration_of cursor es"
proof (induction es arbitrary: cursor)
  case Nil
  show ?case by (simp add: total_duration_def)
next
  case (Cons e es)
  obtain now a where e: "e = (now, a)" by (cases e)
  have "max cursor now + duration_of a + total_duration duration_of es
          \<le> spec_cursor duration_of (max cursor now + duration_of a) es"
    by (rule Cons.IH)
  then show ?case by (simp add: e total_duration_def)
qed

lemma spec_cursor_behind:
  "clock_behind duration_of cursor es \<Longrightarrow>
     spec_cursor duration_of cursor es = cursor + total_duration duration_of es"
proof (induction es arbitrary: cursor)
  case Nil
  show ?case by (simp add: total_duration_def)
next
  case (Cons e es)
  obtain now a where e: "e = (now, a)" by (cases e)
  have b: "now \<le> cursor" and r: "clock_behind duration_of (cursor + duration_of a) es"
    using Cons.prems by (simp_all add: e)
  have "spec_cursor duration_of (cursor + duration_of a) es =
      cursor + duration_of a + total_duration duration_of es"
    using r by (rule Cons.IH)
  then show ?case using b by (simp add: e total_duration_def max_absorb1)
qed

lemma schedule_no_overlap:
  "successively (\<lambda>(i, s, d) (j, s', d'). s + d \<le> s') (spec_schedule duration_of cursor n es)"
proof (induction es arbitrary: cursor n)
  case Nil
  show ?case by simp
next
  case (Cons e es)
  obtain now a where e: "e = (now, a)" by (cases e)
  show ?case
  proof (cases es)
    case Nil
    then show ?thesis by (simp add: e)
  next
    case (Cons e' es')
    obtain now' a' where e': "e' = (now', a')" by (cases e')
    have "successively (\<lambda>(i, s, d) (j, s', d'). s + d \<le> s')
        (spec_schedule duration_of (max cursor now + duration_of a) (Suc n) es)"
      by (rule Cons.IH)
    then show ?thesis by (simp add: e Cons e')
  qed
qed

lemma connected_initial:
  "startTutoring ConnectResolves initial_state =
     initial_state \<lparr> status := CONNECTED, audioContextInRef := Some 0, audioContextOutRef := Some 1,
        sessionRef := Some 2, intervalRef := Some 3, activeTimers := {3},
        openedSessions := [(2, finalInstruction DEFAULT_RUBRIC)], nextObject := 4 \<rparr>"
  by (simp add: startTutoring_def start_reset_def open_contexts_def connect_def onopen_def
        initial_state_def Let_def)

lemma lacking_property:
  "v \<noteq> JNull \<Longrightarrow> \<not> has_member v key \<Longrightarrow> property v key = Some None"
  by (cases v) (simp_all add: map_of_eq_None_iff)

lemma cleanup_grading: "isGrading (cleanup st) = isGrading st" "finalGrade (cleanup st) = finalGrade st"
  "error (cleanup st) = error st"
  by (simp_all add: cleanup_def)

section \<open>Turn completion\<close>

text \<open>
  C1. A turn-complete event appends to the history one entry for each buffer whose
  trimmed content is not empty, with the role of the buffer and the trimmed text, the
  student's (\<open>RoleUser\<close>) before the mentor's (\<open>RoleModel\<close>), and no entry for a buffer whose
  trimmed content is empty; the two buffers and the two live texts are empty afterwards.
  With the student's buffer two spaces and the mentor's \<open>ok\<close> the one new entry is the
  mentor's \<open>ok\<close>; with both buffers empty the history keeps its length.
\<close>

theorem turn_complete_commits:
  "transcriptions (onmessage now duration_of (no_content \<lparr> turnComplete := True \<rparr>) st) =
     transcriptions st
       @ (if trim (currentInputRef st) \<noteq> []
          then [\<lparr> entry_role = RoleUser, entry_text = trim (currentInputRef st) \<rparr>] else [])
       @ (if trim (currentOutputRef st) \<noteq> []
          then [\<lparr> entry_role = RoleModel, entry_text = trim (currentOutputRef st) \<rparr>] else [])
   \<and> currentInputRef (onmessage now duration_of (no_content \<lparr> turnComplete := True \<rparr>) st) = []
   \<and> currentOutputRef (onmessage now duration_of (no_content \<lparr> turnComplete := True \<rparr>) st) = []
   \<and> activeUserText (onmessage now duration_of (no_content \<lparr> turnComplete := True \<rparr>) st) = []
   \<and> activeModelText (onmessage now duration_of (no_content \<lparr> turnComplete := True \<rparr>) st) = []
   \<and> transcriptions (onmessage now duration_of (no_content \<lparr> turnComplete := True \<rparr>)
         (st \<lparr> currentInputRef := js ''  '', currentOutputRef := js ''ok'' \<rparr>)) =
       transcriptions st @ [\<lparr> entry_role = RoleModel, entry_text = js ''ok'' \<rparr>]
   \<and> length (transcriptions (onmessage now duration_of (no_content \<lparr> turnComplete := True \<rparr>)
         (st \<lparr> currentInputRef := [], currentOutputRef := [] \<rparr>))) = length (transcriptions st)"
  by (simp add: onmessage_def no_content_def on_turnComplete_def historyToAppend_def Let_def
        trim_def js_def isWhiteSpace_def)

section \<open>Interruption\<close>

text \<open>
  C2, as the code has it. Handling a message whose \<open>interrupted\<close> flag is set calls
  \<open>stop()\<close> on every source node that was pending, leaves the pending set empty and sets
  the cursor \<open>nextStartTimeRef\<close> to 0, whatever the output clock reads and whatever else
  the message carries. The one exception is a message that also carries a tool call
  that throws: the handler ends before the interruption branch, and the pending set,
  the stopped nodes and the cursor are as they were.
\<close>

theorem interruption_clears_playback:
  assumes "interrupted m"
  shows "if toolCall_returns m
         then sourcesRef (onmessage now duration_of m st) = []
           \<and> set (sourcesRef st) \<subseteq> stoppedSources (onmessage now duration_of m st)
           \<and> nextStartTimeRef (onmessage now duration_of m st) = 0
         else sourcesRef (onmessage now duration_of m st) = sourcesRef st
           \<and> stoppedSources (onmessage now duration_of m st) = stoppedSources st
           \<and> nextStartTimeRef (onmessage now duration_of m st) = nextStartTimeRef st"
proof (cases "toolCall_returns m")
  case True
  define st1 where "st1 = snd (case toolCall m of None \<Rightarrow> (False, st) | Some fcs \<Rightarrow> on_toolCall fcs st)"
  define st2 where "st2 = (case audioData m of None \<Rightarrow> st1 | Some a \<Rightarrow> on_audio now duration_of a st1)"
  define st3 where "st3 = on_interrupted st2"
  define st4 where "st4 = (case inputTranscription m of None \<Rightarrow> st3 | Some t \<Rightarrow> on_inputTranscription t st3)"
  define st5 where "st5 = (case outputTranscription m of None \<Rightarrow> st4 | Some t \<Rightarrow> on_outputTranscription t st4)"
  define st6 where "st6 = (if turnComplete m then on_turnComplete st5 else st5)"
  have ret: "fst (case toolCall m of None \<Rightarrow> (False, st) | Some fcs \<Rightarrow> on_toolCall fcs st) = False"
    using True by (cases "toolCall m") (simp_all add: toolCall_returns_def on_toolCall_threw)
  have res: "onmessage now duration_of m st = st6"
    unfolding onmessage_def Let_def st6_def st5_def st4_def st3_def st2_def st1_def
    using assms ret by (simp add: split_beta)
  have s1: "sourcesRef st1 = sourcesRef st"
    by (simp add: st1_def on_toolCall_playback split: option.split)
  have s2: "set (sourcesRef st) \<subseteq> set (sourcesRef st2)"
    using on_audio_playback(1) [of st1 now duration_of] s1
    by (simp add: st2_def split: option.split)
  have s3: "sourcesRef st3 = []" "nextStartTimeRef st3 = 0" "set (sourcesRef st) \<subseteq> stoppedSources st3"
    using s2 by (auto simp: st3_def after_interrupted)
  have s4: "sourcesRef st4 = []" "nextStartTimeRef st4 = 0" "stoppedSources st4 = stoppedSources st3"
    using s3 by (simp_all add: st4_def transcription_playback split: option.split)
  have s5: "sourcesRef st5 = []" "nextStartTimeRef st5 = 0" "stoppedSources st5 = stoppedSources st3"
    using s4 by (simp_all add: st5_def transcription_playback split: option.split)
  have s6: "sourcesRef st6 = []" "nextStartTimeRef st6 = 0" "stoppedSources st6 = stoppedSources st3"
    using s5 by (simp_all add: st6_def transcription_playback)
  show ?thesis using True s6 s3(3) by (simp add: res)
next
  case False
  then obtain fcs where fcs: "toolCall m = Some fcs" and t: "list_ex throws fcs"
    by (cases "toolCall m") (simp_all add: toolCall_returns_def)
  have threw: "fst (on_toolCall fcs st) = True"
    using t by (simp add: on_toolCall_threw)
  have res: "onmessage now duration_of m st = snd (on_toolCall fcs st)"
    using threw by (simp add: onmessage_def fcs split_beta)
  show ?thesis
    using False by (simp add: res on_toolCall_playback)
qed

theorem interruption_clears_playback_witness:
  "interrupted (no_content \<lparr> interrupted := True \<rparr>)
   \<and> toolCall_returns (no_content \<lparr> interrupted := True \<rparr>)
   \<and> sourcesRef (onmessage 1 (fixed_duration 2) (no_content \<lparr> interrupted := True \<rparr>)
        (onmessage 0 (fixed_duration 2) (audio_event (js ''AAAA''))
           (startTutoring ConnectResolves initial_state))) = []
   \<and> sourcesRef (onmessage 0 (fixed_duration 2) (audio_event (js ''AAAA''))
           (startTutoring ConnectResolves initial_state)) = [4]
   \<and> 4 \<in> stoppedSources (onmessage 1 (fixed_duration 2) (no_content \<lparr> interrupted := True \<rparr>)
        (onmessage 0 (fixed_duration 2) (audio_event (js ''AAAA''))
           (startTutoring ConnectResolves initial_state)))"
proof -
  have i: "interrupted (no_content \<lparr> interrupted := True \<rparr>)"
    by simp
  have r: "toolCall_returns (no_content \<lparr> interrupted := True \<rparr>)"
    by (simp add: toolCall_returns_def no_content_def)
  have p: "sourcesRef (onmessage 0 (fixed_duration 2) (audio_event (js ''AAAA''))
           (startTutoring ConnectResolves initial_state)) = [4]"
    by (simp only: connected_initial)
       (simp add: onmessage_def audio_event_def no_content_def on_audio_def
          set_add_def fixed_duration_def initial_state_def js_def Let_def)
  show ?thesis
    using interruption_clears_playback [OF i, where now = 1 and duration_of = "fixed_duration 2"
        and st = "onmessage 0 (fixed_duration 2) (audio_event (js ''AAAA''))
           (startTutoring ConnectResolves initial_state)"] i r p
    by simp
qed

text \<open>
  C2 as stated fails: a segment of 2 seconds is started at clock time 0 and the
  interruption is handled at clock time 1; the cursor is then 0, not 1.
\<close>

theorem interruption_cursor_counterexample:
  "nextStartTimeRef (onmessage 1 (fixed_duration 2) (no_content \<lparr> interrupted := True \<rparr>)
        (onmessage 0 (fixed_duration 2) (audio_event (js ''AAAA''))
           (startTutoring ConnectResolves initial_state))) \<noteq> 1"
  by (simp only: connected_initial)
     (simp add: onmessage_def audio_event_def no_content_def on_audio_def
          set_add_def fixed_duration_def initial_state_def js_def Let_def on_interrupted_def)

section \<open>Tool calls\<close>

text \<open>
  C3, what the code does. A tool-call event whose requests for \<open>draw_square\<close> all carry
  their arguments is answered by one outbound message whose batch has one result for
  each request, in order, with the identifier and the name of its request and the
  payload \<open>ok\<close> for \<open>draw_square\<close> and \<open>error: tool not found\<close> for any other name. When
  a request for \<open>draw_square\<close> comes without arguments, line 197 throws and nothing is
  sent, for that request or for any other request of the event: so it is for the event
  of one request for \<open>draw_square\<close> without arguments and one request for another name.
  With the arguments there, that event is answered by the batch of length 2.
\<close>

theorem tool_calls_batch:
  "sentToolResponses (onmessage now duration_of (no_content \<lparr> toolCall := Some fcs \<rparr>) st) =
     sentToolResponses st @
       (if fcs = [] \<or> list_ex throws fcs then []
        else [map (\<lambda>fc. \<lparr> fr_id = fc_id fc, fr_name = fc_name fc,
                     fr_result = (if fc_name fc = js ''draw_square'' then js ''ok''
                                  else js ''error: tool not found'') \<rparr>) fcs])
   \<and> sentToolResponses (onmessage now duration_of
         (no_content \<lparr> toolCall := Some
            [\<lparr> fc_id = i, fc_name = js ''draw_square'', fc_args = None \<rparr>,
             \<lparr> fc_id = j, fc_name = js ''zoom'', fc_args = args \<rparr>] \<rparr>) st) =
       sentToolResponses st
   \<and> sentToolResponses (onmessage now duration_of
         (no_content \<lparr> toolCall := Some
            [\<lparr> fc_id = i, fc_name = js ''draw_square'', fc_args = Some xs \<rparr>,
             \<lparr> fc_id = j, fc_name = js ''zoom'', fc_args = args \<rparr>] \<rparr>) st) =
       sentToolResponses st @
         [[\<lparr> fr_id = i, fr_name = js ''draw_square'', fr_result = js ''ok'' \<rparr>,
           \<lparr> fr_id = j, fr_name = js ''zoom'', fr_result = js ''error: tool not found'' \<rparr>]]"
proof -
  have msg: "onmessage now duration_of (no_content \<lparr> toolCall := Some cs \<rparr>) st = snd (on_toolCall cs st)" for cs
    by (cases "on_toolCall cs st") (simp add: onmessage_def no_content_def Let_def)
  have gen: "sentToolResponses (onmessage now duration_of (no_content \<lparr> toolCall := Some cs \<rparr>) st) =
      sentToolResponses st @
        (if cs = [] \<or> list_ex throws cs then []
         else [map (\<lambda>fc. \<lparr> fr_id = fc_id fc, fr_name = fc_name fc,
                      fr_result = (if fc_name fc = js ''draw_square'' then js ''ok''
                                   else js ''error: tool not found'') \<rparr>) cs])" for cs
    by (simp only: msg on_toolCall_sent)
  have z: "js ''zoom'' \<noteq> js ''draw_square''"
    by (simp add: js_def)
  show ?thesis
    using gen [of fcs]
      gen [of "[\<lparr> fc_id = i, fc_name = js ''draw_square'', fc_args = None \<rparr>,
                \<lparr> fc_id = j, fc_name = js ''zoom'', fc_args = args \<rparr>]"]
      gen [of "[\<lparr> fc_id = i, fc_name = js ''draw_square'', fc_args = Some xs \<rparr>,
                \<lparr> fc_id = j, fc_name = js ''zoom'', fc_args = args \<rparr>]"]
    by (simp add: throws_def z)
qed

section \<open>The system instruction\<close>

text \<open>
  C4. The system instruction is the base instruction, a blank line, one of the two
  behaviour clauses and a blank line: when the rubric is not empty after trimming, the
  clause to greet and pose the rubric's problem, followed by the rubric header and the
  rubric as it was entered; when it is empty after trimming, the clause to wait for the
  student, and nothing of the rubric. The two clauses differ, and the session opened by
  \<open>startTutoring\<close> gets this instruction for the rubric of the state.
\<close>

theorem system_instruction_clause:
  "finalInstruction r =
     (if trim r \<noteq> []
      then BASE_SYSTEM_INSTRUCTION @ js ''\<newline>\<newline>'' @ GREET_INSTRUCTION @ js ''\<newline>\<newline>'' @ RUBRIC_HEADER @ r
      else BASE_SYSTEM_INSTRUCTION @ js ''\<newline>\<newline>'' @ WAIT_INSTRUCTION @ js ''\<newline>\<newline>'')
   \<and> GREET_INSTRUCTION \<noteq> WAIT_INSTRUCTION
   \<and> openedSessions (startTutoring ConnectResolves st) =
       openedSessions st @ [(nextObject st + 2, finalInstruction (rubric st))]"
proof -
  have "GREET_INSTRUCTION \<noteq> WAIT_INSTRUCTION"
    by (simp add: GREET_INSTRUCTION_def WAIT_INSTRUCTION_def js_def)
  moreover have "openedSessions (startTutoring ConnectResolves st) =
       openedSessions st @ [(nextObject st + 2, finalInstruction (rubric st))]"
    by (simp add: startTutoring_def start_reset_def open_contexts_def connect_def onopen_def Let_def)
  ultimately show ?thesis
    by (simp add: finalInstruction_def behaviorInstruction_def hasRubric_iff)
qed

section \<open>Playback scheduling\<close>

text \<open>
  C5, as the code has it. With an output context and chunks that are not empty, handled
  in order with no other message in between: the calls \<open>source.start\<close> are those of the
  spec's schedule (each segment at the later of cursor and clock, the cursor moved to its
  end), each segment ends no later than the next one starts, the cursor at the end is at
  least the first start time plus the sum of the durations and equals it when at each
  later chunk the clock has not passed the cursor, every segment is in the pending set,
  and the \<open>ended\<close> listener of a segment removes it from the pending set.
\<close>

theorem playback_schedule:
  assumes "audioContextOutRef st \<noteq> None"
    and "a1 \<noteq> []"
    and "list_all (\<lambda>e. snd e \<noteq> []) rest"
  shows "startedSources (onmessages duration_of (audio_events ((now1, a1) # rest)) st) =
           startedSources st
             @ spec_schedule duration_of (nextStartTimeRef st) (nextObject st) ((now1, a1) # rest)
         \<and> successively (\<lambda>(i, s, d) (j, s', d'). s + d \<le> s')
             (spec_schedule duration_of (nextStartTimeRef st) (nextObject st) ((now1, a1) # rest))
         \<and> max (nextStartTimeRef st) now1 + total_duration duration_of ((now1, a1) # rest)
             \<le> nextStartTimeRef (onmessages duration_of (audio_events ((now1, a1) # rest)) st)
         \<and> (clock_behind duration_of (max (nextStartTimeRef st) now1 + duration_of a1) rest \<longrightarrow>
             nextStartTimeRef (onmessages duration_of (audio_events ((now1, a1) # rest)) st) =
               max (nextStartTimeRef st) now1 + total_duration duration_of ((now1, a1) # rest))
         \<and> set (sourcesRef (onmessages duration_of (audio_events ((now1, a1) # rest)) st)) =
             set (sourcesRef st) \<union> {nextObject st ..< nextObject st + length ((now1, a1) # rest)}
         \<and> (\<forall>source s. set (sourcesRef (on_ended source s)) = set (sourcesRef s) - {source})"
proof -
  obtain c where c: "audioContextOutRef st = Some c"
    using assms(1) by blast
  have ne: "\<forall>(now, a) \<in> set ((now1, a1) # rest). a \<noteq> []"
    using assms(2,3) by (auto simp: list_all_iff)
  note seq = enqueue_sequence [OF c ne, of duration_of]
  have tot: "total_duration duration_of ((now1, a1) # rest) = duration_of a1 + total_duration duration_of rest"
    by (simp add: total_duration_def)
  have cur: "nextStartTimeRef (onmessages duration_of (audio_events ((now1, a1) # rest)) st) =
      spec_cursor duration_of (max (nextStartTimeRef st) now1 + duration_of a1) rest"
    using seq by simp
  have lower: "max (nextStartTimeRef st) now1 + total_duration duration_of ((now1, a1) # rest)
             \<le> nextStartTimeRef (onmessages duration_of (audio_events ((now1, a1) # rest)) st)"
    using spec_cursor_lower [of "max (nextStartTimeRef st) now1 + duration_of a1" duration_of rest]
    by (simp add: cur tot)
  have eq: "clock_behind duration_of (max (nextStartTimeRef st) now1 + duration_of a1) rest \<longrightarrow>
             nextStartTimeRef (onmessages duration_of (audio_events ((now1, a1) # rest)) st) =
               max (nextStartTimeRef st) now1 + total_duration duration_of ((now1, a1) # rest)"
    using spec_cursor_behind [of duration_of "max (nextStartTimeRef st) now1 + duration_of a1" rest]
    by (simp add: cur tot)
  have ended: "\<forall>source s. set (sourcesRef (on_ended source s)) = set (sourcesRef s) - {source}"
    by (auto simp: on_ended_def set_delete_def)
  show ?thesis
    using seq schedule_no_overlap [of duration_of "nextStartTimeRef st" "nextObject st" "(now1, a1) # rest"]
      lower eq ended
    by blast
qed

theorem playback_schedule_witness:
  "audioContextOutRef (startTutoring ConnectResolves initial_state) \<noteq> None
   \<and> js ''AAAA'' \<noteq> []
   \<and> list_all (\<lambda>e. snd e \<noteq> []) [(1 / 2, js ''AAAA'')]
   \<and> clock_behind (fixed_duration 1)
        (max (nextStartTimeRef (startTutoring ConnectResolves initial_state)) 0
           + fixed_duration 1 (js ''AAAA''))
        [(1 / 2, js ''AAAA'')]
   \<and> startedSources (onmessages (fixed_duration 1)
        (audio_events [(0, js ''AAAA''), (1 / 2, js ''AAAA'')])
        (startTutoring ConnectResolves initial_state)) = [(4, 0, 1), (5, 1, 1)]
   \<and> nextStartTimeRef (onmessages (fixed_duration 1)
        (audio_events [(0, js ''AAAA''), (1 / 2, js ''AAAA'')])
        (startTutoring ConnectResolves initial_state)) = 2"
proof -
  have h1: "audioContextOutRef (startTutoring ConnectResolves initial_state) \<noteq> None"
    by (simp add: connected_initial)
  have h2: "js ''AAAA'' \<noteq> []"
    by (simp add: js_def)
  have h3: "list_all (\<lambda>e. snd e \<noteq> []) [(1 / 2, js ''AAAA'')]"
    by (simp add: js_def)
  have f: "nextStartTimeRef (startTutoring ConnectResolves initial_state) = 0"
    "nextObject (startTutoring ConnectResolves initial_state) = 4"
    "startedSources (startTutoring ConnectResolves initial_state) = []"
    by (simp_all add: connected_initial) (simp_all add: initial_state_def)
  have h4: "clock_behind (fixed_duration 1)
        (max (nextStartTimeRef (startTutoring ConnectResolves initial_state)) 0
           + fixed_duration 1 (js ''AAAA''))
        [(1 / 2, js ''AAAA'')]"
    by (simp add: f fixed_duration_def)
  show ?thesis
    using playback_schedule [OF h1 h2 h3, of "fixed_duration 1" 0] h1 h2 h3 h4
    by (simp add: f fixed_duration_def total_duration_def)
qed

text \<open>
  C5 as stated fails when the clock passes the cursor between two chunks: two segments
  of 1 second, handled at clock times 0 and 5, start at 0 and 5 and the cursor ends at 6,
  not at 0 + 1 + 1.
\<close>

theorem playback_gap_counterexample:
  "startedSources (onmessages (fixed_duration 1)
        (audio_events [(0, js ''AAAA''), (5, js ''AAAA'')])
        (startTutoring ConnectResolves initial_state)) = [(4, 0, 1), (5, 5, 1)]
   \<and> nextStartTimeRef (onmessages (fixed_duration 1)
        (audio_events [(0, js ''AAAA''), (5, js ''AAAA'')])
        (startTutoring ConnectResolves initial_state)) = 6
   \<and> nextStartTimeRef (onmessages (fixed_duration 1)
        (audio_events [(0, js ''AAAA''), (5, js ''AAAA'')])
        (startTutoring ConnectResolves initial_state)) \<noteq> 0 + 1 + 1"
  by (simp only: connected_initial)
     (simp add: audio_events_def audio_event_def onmessage_def no_content_def on_audio_def
        set_add_def fixed_duration_def initial_state_def js_def Let_def)

section \<open>Grading\<close>

text \<open>
  When the canvas exists and the response body parses to a JSON value other than \<open>null\<close>
  that has no member \<open>feedback\<close>, the stored report's feedback is the placeholder and no
  error is set; and whatever the request and the parser do, the flag \<open>isGrading\<close> is
  false when the operation ends.
\<close>

lemma grading_defaults_feedback:
  assumes "canvasRef st \<noteq> None"
    and "parse (message_or t (js ''{}'')) = Some v"
    and "v \<noteq> JNull"
    and "\<not> has_member v (js ''feedback'')"
  shows "map_option feedback (finalGrade (handleGradeAssignment parse (Responds t) st)) =
           Some (JStr FEEDBACK_PLACEHOLDER)
         \<and> error (handleGradeAssignment parse (Responds t) st) = error st
         \<and> (\<forall>p outcome. isGrading (handleGradeAssignment p outcome st) = False)"
proof -
  have f: "property v (js ''feedback'') = Some None"
    using assms(3,4) by (rule lacking_property)
  obtain g where g: "property v (js ''grade'') = Some g"
    using assms(3) by (cases v) simp_all
  have "handleGradeAssignment parse (Responds t) st =
      grading_finally (cleanup (st \<lparr> isGrading := True,
        finalGrade := Some \<lparr> grade = or_placeholder g GRADE_PLACEHOLDER,
                               feedback = JStr FEEDBACK_PLACEHOLDER \<rparr> \<rparr>))"
  proof -
    from assms(1) have c: "(canvasRef st = None) = False" by simp
    show ?thesis
      by (simp add: handleGradeAssignment_def grading_try_def c assms(2) f g or_placeholder_def)
  qed
  then have "map_option feedback (finalGrade (handleGradeAssignment parse (Responds t) st)) =
           Some (JStr FEEDBACK_PLACEHOLDER)
         \<and> error (handleGradeAssignment parse (Responds t) st) = error st"
    by (simp add: grading_finally_def cleanup_grading)
  moreover have "isGrading (handleGradeAssignment p outcome st) = False" for p outcome
  proof -
    from assms(1) have c: "(canvasRef st = None) = False" by simp
    show ?thesis by (simp add: handleGradeAssignment_def grading_finally_def c)
  qed
  ultimately show ?thesis by simp
qed

text \<open>
  C6, what the code does. For the body \<open>null\<close>, which parses as JSON and has no member
  \<open>feedback\<close>, reading \<open>result.grade\<close> on line 339 throws: no report is stored, the error
  message of a failed grading is set, and the flag \<open>isGrading\<close> is false at the end. So it
  is for every parser that gives \<open>null\<close>, every response text and every state with a
  canvas, and for the text \<open>null\<close> after a session has started. The body \<open>{}\<close> has no
  member \<open>feedback\<close> either, and gets the placeholder.
\<close>

theorem grading_null_body_fails:
  "finalGrade (handleGradeAssignment (\<lambda>s. Some JNull) (Responds t) (st \<lparr> canvasRef := Some c \<rparr>)) =
     finalGrade st
   \<and> error (handleGradeAssignment (\<lambda>s. Some JNull) (Responds t) (st \<lparr> canvasRef := Some c \<rparr>)) =
       Some (js ''Grading process failed. Please try again.'')
   \<and> isGrading (handleGradeAssignment (\<lambda>s. Some JNull) (Responds t) (st \<lparr> canvasRef := Some c \<rparr>)) =
       False
   \<and> parse_example (js ''null'') = Some JNull
   \<and> has_member JNull (js ''feedback'') = False
   \<and> finalGrade (handleGradeAssignment parse_example (Responds (Some (js ''null'')))
        (startTutoring ConnectResolves (handleCanvasRef (Some example_canvas) initial_state))) = None
   \<and> error (handleGradeAssignment parse_example (Responds (Some (js ''null'')))
        (startTutoring ConnectResolves (handleCanvasRef (Some example_canvas) initial_state))) =
       Some (js ''Grading process failed. Please try again.'')
   \<and> map_option feedback (finalGrade (handleGradeAssignment parse_example (Responds (Some (js ''{}'')))
        (startTutoring ConnectResolves (handleCanvasRef (Some example_canvas) initial_state)))) =
       Some (JStr FEEDBACK_PLACEHOLDER)"
proof -
  have g: "finalGrade (handleGradeAssignment (\<lambda>s. Some JNull) (Responds t) (st \<lparr> canvasRef := Some c \<rparr>)) =
     finalGrade st
   \<and> error (handleGradeAssignment (\<lambda>s. Some JNull) (Responds t) (st \<lparr> canvasRef := Some c \<rparr>)) =
       Some (js ''Grading process failed. Please try again.'')
   \<and> isGrading (handleGradeAssignment (\<lambda>s. Some JNull) (Responds t) (st \<lparr> canvasRef := Some c \<rparr>)) =
       False"
    by (simp add: handleGradeAssignment_def grading_try_def grading_catch_def grading_finally_def)
  have e: "parse_example (js ''null'') = Some JNull \<and> has_member JNull (js ''feedback'') = False"
    by (simp add: parse_example_def)
  have n: "finalGrade (handleGradeAssignment parse_example (Responds (Some (js ''null'')))
        (startTutoring ConnectResolves (handleCanvasRef (Some example_canvas) initial_state))) = None
   \<and> error (handleGradeAssignment parse_example (Responds (Some (js ''null'')))
        (startTutoring ConnectResolves (handleCanvasRef (Some example_canvas) initial_state))) =
       Some (js ''Grading process failed. Please try again.'')"
    by (simp add: parse_example_def js_def handleGradeAssignment_def grading_try_def grading_catch_def
        grading_finally_def message_or_def startTutoring_def start_reset_def open_contexts_def
        connect_def onopen_def handleCanvasRef_def initial_state_def Let_def)
  have o: "map_option feedback (finalGrade (handleGradeAssignment parse_example (Responds (Some (js ''{}'')))
        (startTutoring ConnectResolves (handleCanvasRef (Some example_canvas) initial_state)))) =
       Some (JStr FEEDBACK_PLACEHOLDER)"
    by (simp add: parse_example_def js_def handleGradeAssignment_def grading_try_def
        grading_finally_def message_or_def startTutoring_def start_reset_def open_contexts_def
        connect_def onopen_def handleCanvasRef_def initial_state_def Let_def or_placeholder_def
        cleanup_def)
  show ?thesis
    using g e n o by simp
qed

section \<open>Start and teardown\<close>

text \<open>
  C7, what the code does. When \<open>getUserMedia\<close> rejects, the catch block sets the error
  message and the status \<open>ERROR\<close> and then calls \<open>cleanup\<close>, which sets the status
  \<open>IDLE\<close>: the status after the start is \<open>IDLE\<close>, not \<open>ERROR\<close>. The rest holds: the
  message is the error's or the fallback, the pending set is empty, the session
  reference is null, the buffers are empty, the audio contexts of the refs are closed
  and the timer of the ref is not running.
\<close>

theorem mic_failure_ends_idle:
  "status (startTutoring (GetUserMediaRejects m) st) = IDLE
   \<and> status (startTutoring (GetUserMediaRejects m) st) \<noteq> ERROR
   \<and> error (startTutoring (GetUserMediaRejects m) st) = Some (message_or m (js ''Failed to initialize session.''))
   \<and> sourcesRef (startTutoring (GetUserMediaRejects m) st) = []
   \<and> sessionRef (startTutoring (GetUserMediaRejects m) st) = None
   \<and> currentInputRef (startTutoring (GetUserMediaRejects m) st) = []
   \<and> currentOutputRef (startTutoring (GetUserMediaRejects m) st) = []
   \<and> activeUserText (startTutoring (GetUserMediaRejects m) st) = []
   \<and> activeModelText (startTutoring (GetUserMediaRejects m) st) = []
   \<and> set_option (audioContextInRef (startTutoring (GetUserMediaRejects m) st))
        \<subseteq> closedContexts (startTutoring (GetUserMediaRejects m) st)
   \<and> set_option (audioContextOutRef (startTutoring (GetUserMediaRejects m) st))
        \<subseteq> closedContexts (startTutoring (GetUserMediaRejects m) st)
   \<and> set_option (intervalRef (startTutoring (GetUserMediaRejects m) st))
        \<inter> activeTimers (startTutoring (GetUserMediaRejects m) st) = {}"
  by (simp add: start_reset_def startTutoring_def open_contexts_def 
        start_catch_def cleanup_def Let_def split: option.split)

text \<open>
  At status \<open>CONNECTING\<close> (button disabled) and \<open>CONNECTED\<close> (button replaced by
  Disconnect) a click on the Start control changes nothing.
\<close>

lemma start_control_gated:
  assumes "status st = CONNECTING \<or> status st = CONNECTED"
  shows "click_start outcome st = st"
  using assms by (auto simp: click_start_def)


text \<open>
  C9. \<open>cleanup\<close> is a total function of the state, and running it twice gives the state
  that running it once gives: status \<open>IDLE\<close>, both buffers and both live texts empty, the
  pending set empty.
\<close>

theorem cleanup_idempotent:
  "cleanup (cleanup st) = cleanup st
   \<and> status (cleanup st) = IDLE
   \<and> currentInputRef (cleanup st) = [] \<and> currentOutputRef (cleanup st) = []
   \<and> activeUserText (cleanup st) = [] \<and> activeModelText (cleanup st) = []
   \<and> sourcesRef (cleanup st) = []"
  by (simp add: cleanup_def Un_ac split: option.split)

text \<open>
  C10. \<open>startTutoring\<close> begins by clearing the error message, the stored grade report
  and the history, before anything is awaited; after the start, whatever its outcome,
  the history is empty and no grade report is stored, and after a start that connects
  no error message is set. \<open>cleanup\<close> leaves the history as it is.
\<close>

theorem start_resets_outputs:
  "error (start_reset st) = None \<and> finalGrade (start_reset st) = None
   \<and> transcriptions (start_reset st) = []
   \<and> transcriptions (startTutoring outcome st) = []
   \<and> finalGrade (startTutoring outcome st) = None
   \<and> error (startTutoring ConnectResolves st) = None
   \<and> transcriptions (cleanup st) = transcriptions st"
  by (simp add: start_reset_def startTutoring_def open_contexts_def connect_def onopen_def
        start_catch_def cleanup_def Let_def split: start_outcome.split)

end
